theory Spec2Isabelle
  imports Main "HOL-Library.Word"
begin

section \<open>Ariane: workflow selection for pull-request comments and merge groups\<close>

text \<open>
  A shallow embedding of the decision code of the Ariane GitHub App:
  \<^item> \<^verbatim>\<open>internal/config\<close>: \<^verbatim>\<open>CheckForTrigger\<close>, \<^verbatim>\<open>ShouldRunOnlyWorkflows\<close>,
    \<^verbatim>\<open>ShouldRunWorkflow\<close>;
  \<^item> \<^verbatim>\<open>internal/handlers/issue_comment.go\<close>: \<^verbatim>\<open>determineContextRef\<close>,
    \<^verbatim>\<open>shouldSkipWorkflow\<close>;
  \<^item> \<^verbatim>\<open>internal/handlers/merge_group.go\<close>: \<^verbatim>\<open>MergeGroupHandler.Handle\<close>.

  Go strings are byte sequences and are modelled as \<^typ>\<open>string\<close>. Pointer fields of the
  go-github structs are options, read through the nil-safe getters of that library
  (a nil pointer reads as the zero value).
\<close>

subsection \<open>Contexts and the logger\<close>

text \<open>\<^verbatim>\<open>internal/log\<close> keeps a pointer to a \<^verbatim>\<open>zerolog.Logger\<close> in the context, under the
  key \<^verbatim>\<open>logKey{}\<close>. Of a context the model holds the value under that key, \<open>None\<close> when the
  key is absent: \<^verbatim>\<open>FromContext\<close> then returns nil. \<^verbatim>\<open>context.Background()\<close> has no value
  under any key. What a logger writes has no part in any result and is left out.\<close>

datatype Logger = Logger

record Context =
  logKey :: "Logger option"

definition Background :: Context where
  "Background = \<lparr>logKey = None\<rparr>"

definition WithLogger :: "Context \<Rightarrow> Logger \<Rightarrow> Context" where
  "WithLogger ctx logger = ctx\<lparr>logKey := Some logger\<rparr>"

definition FromContext :: "Context \<Rightarrow> Logger option" where
  "FromContext ctx = logKey ctx"

text \<open>A call returns a value or panics. The code of \<^verbatim>\<open>internal/config\<close> panics in one
  way: \<^verbatim>\<open>log.FromContext(ctx).Err(err)\<close> dereferences the logger, which is nil when the
  context carries none.\<close>

datatype 'a outcome = Returns 'a | Panics

subsection \<open>Strings\<close>

text \<open>\<^verbatim>\<open>strings.HasPrefix(s, prefix)\<close>:
  \<^verbatim>\<open>len(s) >= len(prefix) && s[:len(prefix)] == prefix\<close>.\<close>

definition HasPrefix :: "string \<Rightarrow> string \<Rightarrow> bool" where
  "HasPrefix s pre \<longleftrightarrow> length pre \<le> length s \<and> take (length pre) s = pre"

subsection \<open>Changed files\<close>

text \<open>\<^verbatim>\<open>github.CommitFile\<close>, of which the code reads \<^verbatim>\<open>Filename *string\<close> only. The
  file list is a slice of pointers; \<^verbatim>\<open>GetFilename\<close> returns the empty string for a nil
  receiver and for a nil field.\<close>

record CommitFile =
  Filename :: "string option"

fun GetFilename :: "CommitFile option \<Rightarrow> string" where
  "GetFilename None = []"
| "GetFilename (Some f) = (case Filename f of None \<Rightarrow> [] | Some s \<Rightarrow> s)"

text \<open>The file of workflow \<open>w\<close>: the Go expression
  \<^verbatim>\<open>`.github/workflows/` + workflow\<close>.\<close>

definition workflow_file :: "string \<Rightarrow> string" where
  "workflow_file workflow = ''.github/workflows/'' @ workflow"

subsection \<open>Workflows missing from the configuration\<close>

text \<open>\<^verbatim>\<open>ShouldRunOnlyWorkflows\<close>: the loop returns true at the first file that is outside
  \<^verbatim>\<open>.github/workflows\<close> or is the workflow's own file, and false after the last file. The
  receiver \<^verbatim>\<open>config\<close> and the context are not read, and nothing in the body can panic.\<close>

fun ShouldRunOnlyWorkflows :: "string \<Rightarrow> CommitFile option list \<Rightarrow> bool" where
  "ShouldRunOnlyWorkflows workflow [] = False"
| "ShouldRunOnlyWorkflows workflow (file # files) =
     (let filename = GetFilename file in
      if \<not> HasPrefix filename ''.github/workflows'' \<or> filename = workflow_file workflow
      then True
      else ShouldRunOnlyWorkflows workflow files)"

subsection \<open>The regular-expression package\<close>

text \<open>The code calls three functions of Go's standard package \<^verbatim>\<open>regexp\<close>, which is not
  part of the repository. They are a parameter of the model: \<open>Compile\<close> returns \<open>None\<close>
  where \<^verbatim>\<open>regexp.Compile\<close> returns an error, and \<open>FindStringSubmatch\<close> returns \<open>None\<close>
  where the Go method returns the nil slice. Theorems stated for every such record hold
  for the Go package in particular.\<close>

record 're regexp_pkg =
  Compile :: "string \<Rightarrow> 're option"
  MatchString :: "'re \<Rightarrow> string \<Rightarrow> bool"
  FindStringSubmatch :: "'re \<Rightarrow> string \<Rightarrow> string list option"

subsection \<open>Configuration\<close>

text \<open>\<^verbatim>\<open>TriggerConfig\<close>, \<^verbatim>\<open>WorkflowPathsRegexConfig\<close> and \<^verbatim>\<open>ArianeConfig\<close>. The field
  \<^verbatim>\<open>Workflows\<close> of \<^verbatim>\<open>TriggerConfig\<close> is named \<open>TriggerWorkflows\<close> here, since a record
  field is a constant of the theory.

  \<^verbatim>\<open>Triggers\<close> is a Go map, and \<^verbatim>\<open>range\<close> visits its entries in an order that the language
  leaves open. The model holds the entries as a list, in the order in which one run of the
  loop visits them; a statement about every list covers every order.\<close>

record TriggerConfig =
  TriggerWorkflows :: "string list"

record WorkflowPathsRegexConfig =
  PathsRegex :: string
  PathsIgnoreRegex :: string

record ArianeConfig =
  Triggers :: "(string \<times> TriggerConfig) list"
  Workflows :: "string \<rightharpoonup> WorkflowPathsRegexConfig"
  AllowedTeams :: "string list"

subsection \<open>Trigger phrases\<close>

text \<open>\<^verbatim>\<open>CheckForTrigger\<close> returns two slices: \<^verbatim>\<open>(nil, nil)\<close>, here \<open>None\<close>, or the submatch
  and the workflows of the first entry whose expression compiles and matches. On a
  compile error it logs through the logger of the context, and panics if there is none,
  before it goes on to the next entry.\<close>

fun CheckForTrigger_range ::
  "Context \<Rightarrow> 're regexp_pkg \<Rightarrow> (string \<times> TriggerConfig) list \<Rightarrow> string
     \<Rightarrow> (string list \<times> string list) option outcome"
where
  "CheckForTrigger_range ctx pkg [] comment = Returns None"
| "CheckForTrigger_range ctx pkg ((regex, trigger) # rest) comment =
     (case Compile pkg (''^'' @ regex @ ''$'') of
        None \<Rightarrow>
          (case FromContext ctx of
             None \<Rightarrow> Panics
           | Some logger \<Rightarrow> CheckForTrigger_range ctx pkg rest comment)
      | Some re \<Rightarrow>
          (case FindStringSubmatch pkg re comment of
             Some submatch \<Rightarrow> Returns (Some (submatch, TriggerWorkflows trigger))
           | None \<Rightarrow> CheckForTrigger_range ctx pkg rest comment))"

definition CheckForTrigger ::
  "Context \<Rightarrow> 're regexp_pkg \<Rightarrow> ArianeConfig \<Rightarrow> string
     \<Rightarrow> (string list \<times> string list) option outcome"
where
  "CheckForTrigger ctx pkg config comment =
     CheckForTrigger_range ctx pkg (Triggers config) comment"

subsection \<open>Workflows with path rules\<close>

text \<open>The loop of \<^verbatim>\<open>ShouldRunWorkflow\<close> over the files. \<open>None\<close> is the \<^verbatim>\<open>return true\<close>
  inside the loop; \<open>Some n\<close> is the value of \<^verbatim>\<open>numberIgnoredFiles\<close> after the last file.
  The counter never exceeds the number of files, so the Go \<^verbatim>\<open>int\<close> does not wrap.\<close>

definition re_matches :: "'re regexp_pkg \<Rightarrow> 're option \<Rightarrow> string \<Rightarrow> bool" where
  \<comment> \<open>\<^verbatim>\<open>re != nil && re.MatchString(filename)\<close>\<close>
  "re_matches pkg re filename = (case re of None \<Rightarrow> False | Some r \<Rightarrow> MatchString pkg r filename)"

fun ShouldRunWorkflow_loop ::
  "'re regexp_pkg \<Rightarrow> string \<Rightarrow> 're option \<Rightarrow> 're option \<Rightarrow> CommitFile option list \<Rightarrow> nat \<Rightarrow> nat option"
where
  "ShouldRunWorkflow_loop pkg workflow re reIgnore [] numberIgnoredFiles = Some numberIgnoredFiles"
| "ShouldRunWorkflow_loop pkg workflow re reIgnore (file # files) numberIgnoredFiles =
     (let filename = GetFilename file in
      if filename = workflow_file workflow \<or> re_matches pkg re filename then None
      else if HasPrefix filename ''.github/workflows''
      then ShouldRunWorkflow_loop pkg workflow re reIgnore files (numberIgnoredFiles + 1)
      else if re_matches pkg reIgnore filename
      then ShouldRunWorkflow_loop pkg workflow re reIgnore files (numberIgnoredFiles + 1)
      else ShouldRunWorkflow_loop pkg workflow re reIgnore files numberIgnoredFiles)"

text \<open>The two conditional compilations: \<open>None\<close> is a compile error, \<open>Some None\<close> the
  variable left nil because the setting is empty. On a compile error the function logs
  through the logger of the context, and panics if there is none, before it returns
  false.\<close>

definition log_and_return :: "Context \<Rightarrow> 'a \<Rightarrow> 'a outcome" where
  \<comment> \<open>\<^verbatim>\<open>log.FromContext(ctx).Err(err).Msgf(...); return v\<close>\<close>
  "log_and_return ctx v = (case FromContext ctx of None \<Rightarrow> Panics | Some logger \<Rightarrow> Returns v)"

definition compile_if_set :: "'re regexp_pkg \<Rightarrow> string \<Rightarrow> 're option option" where
  "compile_if_set pkg regex =
     (if regex \<noteq> [] then
        (case Compile pkg (''^'' @ regex) of None \<Rightarrow> None | Some r \<Rightarrow> Some (Some r))
      else Some None)"

definition ShouldRunWorkflow ::
  "Context \<Rightarrow> 're regexp_pkg \<Rightarrow> ArianeConfig \<Rightarrow> string \<Rightarrow> CommitFile option list
     \<Rightarrow> bool outcome"
where
  "ShouldRunWorkflow ctx pkg config workflow files =
     (if length files = 0 then Returns False
      else case Workflows config workflow of
        None \<Rightarrow> Returns False
      | Some workflowConfig \<Rightarrow>
          if PathsRegex workflowConfig \<noteq> [] \<and> PathsIgnoreRegex workflowConfig \<noteq> []
          then Returns True
          else
            (case compile_if_set pkg (PathsRegex workflowConfig) of
               None \<Rightarrow> log_and_return ctx False
             | Some re \<Rightarrow>
                 (case compile_if_set pkg (PathsIgnoreRegex workflowConfig) of
                    None \<Rightarrow> log_and_return ctx False
                  | Some reIgnore \<Rightarrow>
                      (case ShouldRunWorkflow_loop pkg workflow re reIgnore files 0 of
                         None \<Rightarrow> Returns True
                       | Some numberIgnoredFiles \<Rightarrow>
                           if re \<noteq> None \<and> reIgnore = None then Returns False
                           else Returns (numberIgnoredFiles < length files)))))"

text \<open>\<^verbatim>\<open>PRCommentHandler.shouldRunWorkflow\<close> chooses between the two policies.\<close>

definition shouldRunWorkflow ::
  "Context \<Rightarrow> 're regexp_pkg \<Rightarrow> ArianeConfig \<Rightarrow> string \<Rightarrow> CommitFile option list
     \<Rightarrow> bool outcome"
where
  "shouldRunWorkflow ctx pkg config workflow files =
     (case Workflows config workflow of
        Some _ \<Rightarrow> ShouldRunWorkflow ctx pkg config workflow files
      | None \<Rightarrow> Returns (ShouldRunOnlyWorkflows workflow files))"

subsection \<open>Pull requests and the context reference\<close>

text \<open>The go-github structs read by \<^verbatim>\<open>determineContextRef\<close>: \<^verbatim>\<open>User.Login\<close>,
  \<^verbatim>\<open>Repository.Owner\<close> and \<^verbatim>\<open>Repository.Name\<close> (here \<open>RepoName\<close>),
  \<^verbatim>\<open>PullRequestBranch.Ref\<close>, \<^verbatim>\<open>SHA\<close> and \<^verbatim>\<open>Repo\<close>, \<^verbatim>\<open>PullRequest.Head\<close> and
  \<^verbatim>\<open>Base\<close>. Every field is a pointer, and every getter returns the zero value on nil.\<close>

definition str_or_empty :: "string option \<Rightarrow> string" where
  "str_or_empty p = (case p of None \<Rightarrow> [] | Some s \<Rightarrow> s)"

record User =
  Login :: "string option"

record Repository =
  Owner :: "User option"
  RepoName :: "string option"

record PullRequestBranch =
  Ref :: "string option"
  SHA :: "string option"
  Repo :: "Repository option"

record PullRequest =
  Head :: "PullRequestBranch option"
  Base :: "PullRequestBranch option"

definition GetLogin :: "User option \<Rightarrow> string" where
  "GetLogin u = (case u of None \<Rightarrow> [] | Some x \<Rightarrow> str_or_empty (Login x))"

definition GetOwner :: "Repository option \<Rightarrow> User option" where
  "GetOwner r = (case r of None \<Rightarrow> None | Some x \<Rightarrow> Owner x)"

definition GetName :: "Repository option \<Rightarrow> string" where
  "GetName r = (case r of None \<Rightarrow> [] | Some x \<Rightarrow> str_or_empty (RepoName x))"

definition GetRef :: "PullRequestBranch option \<Rightarrow> string" where
  "GetRef b = (case b of None \<Rightarrow> [] | Some x \<Rightarrow> str_or_empty (Ref x))"

definition GetSHA :: "PullRequestBranch option \<Rightarrow> string" where
  "GetSHA b = (case b of None \<Rightarrow> [] | Some x \<Rightarrow> str_or_empty (SHA x))"

definition GetRepo :: "PullRequestBranch option \<Rightarrow> Repository option" where
  "GetRepo b = (case b of None \<Rightarrow> None | Some x \<Rightarrow> Repo x)"

definition GetHead :: "PullRequest option \<Rightarrow> PullRequestBranch option" where
  "GetHead pr = (case pr of None \<Rightarrow> None | Some x \<Rightarrow> Head x)"

definition GetBase :: "PullRequest option \<Rightarrow> PullRequestBranch option" where
  "GetBase pr = (case pr of None \<Rightarrow> None | Some x \<Rightarrow> Base x)"

text \<open>\<^verbatim>\<open>determineContextRef\<close> returns the pair \<^verbatim>\<open>(contextRef, SHA)\<close>; the two logger calls
  are left out.\<close>

definition determineContextRef :: "PullRequest option \<Rightarrow> string \<Rightarrow> string \<Rightarrow> string \<times> string" where
  "determineContextRef pr owner repo =
     (let SHA = GetSHA (GetHead pr);
          prOwner = GetLogin (GetOwner (GetRepo (GetHead pr)));
          prRepo = GetName (GetRepo (GetHead pr));
          contextRef = (if prOwner \<noteq> owner \<or> prRepo \<noteq> repo
                        then GetRef (GetBase pr)
                        else GetRef (GetHead pr))
      in (contextRef, SHA))"

subsection \<open>The latest run of a workflow\<close>

text \<open>\<^verbatim>\<open>shouldSkipWorkflow\<close> asks the API for the runs of the workflow at the commit, one
  per page. The call \<^verbatim>\<open>client.Actions.ListWorkflowRunsByFileName\<close> is a parameter of
  the model: it returns an error (\<open>Inl\<close>) or a pointer to \<^verbatim>\<open>github.WorkflowRuns\<close>, whose
  field \<^verbatim>\<open>WorkflowRuns\<close> (here \<open>Runs\<close>) is a slice of pointers to \<^verbatim>\<open>github.WorkflowRun\<close>.\<close>

record WorkflowRun =
  Status :: "string option"
  Conclusion :: "string option"

record WorkflowRuns =
  Runs :: "WorkflowRun option list"

record ListWorkflowRunsOptions =
  OptHeadSHA :: string
  OptPerPage :: int

definition GetStatus :: "WorkflowRun option \<Rightarrow> string" where
  "GetStatus r = (case r of None \<Rightarrow> [] | Some x \<Rightarrow> str_or_empty (Status x))"

definition GetConclusion :: "WorkflowRun option \<Rightarrow> string" where
  "GetConclusion r = (case r of None \<Rightarrow> [] | Some x \<Rightarrow> str_or_empty (Conclusion x))"

type_synonym 'e list_runs =
  "string \<Rightarrow> string \<Rightarrow> string \<Rightarrow> ListWorkflowRunsOptions \<Rightarrow> 'e + WorkflowRuns option"

definition shouldSkipWorkflow :: "'e list_runs \<Rightarrow> string \<Rightarrow> string \<Rightarrow> string \<Rightarrow> string \<Rightarrow> bool" where
  "shouldSkipWorkflow ListWorkflowRunsByFileName owner repo workflow sha =
     (let runListOpts = \<lparr>OptHeadSHA = sha, OptPerPage = 1\<rparr> in
      case ListWorkflowRunsByFileName owner repo workflow runListOpts of
        Inl err \<Rightarrow> False
      | Inr runs \<Rightarrow>
          (case runs of
             None \<Rightarrow> False
           | Some rs \<Rightarrow>
               (case Runs rs of
                  [] \<Rightarrow> False
                | lastRun # _ \<Rightarrow>
                    if GetStatus lastRun = ''completed'' then
                      (let conc = GetConclusion lastRun in
                       if conc = ''success'' \<or> conc = ''skipped'' then True
                       else if conc = ''failure'' then False
                       else False)
                    else False)))"

subsection \<open>Merge groups\<close>

text \<open>The go-github structs read by \<^verbatim>\<open>MergeGroupHandler.Handle\<close>. Fields whose names
  are taken by another record carry a prefix: \<open>MGBaseRef\<close> and \<open>MGHeadSHA\<close> are
  \<^verbatim>\<open>MergeGroup.BaseRef\<close> and \<^verbatim>\<open>MergeGroup.HeadSHA\<close>, \<open>EventMergeGroup\<close> and \<open>EventRepo\<close>
  are \<^verbatim>\<open>MergeGroupEvent.MergeGroup\<close> and \<^verbatim>\<open>MergeGroupEvent.Repo\<close>, and the fields of
  \<^verbatim>\<open>CreateCheckRunOptions\<close> start with \<open>Check\<close>. Identifiers are \<^verbatim>\<open>int64\<close>.\<close>

record Installation =
  ID :: "64 word option"

record MergeGroup =
  MGBaseRef :: "string option"
  MGHeadSHA :: "string option"

record MergeGroupEvent =
  Action :: "string option"
  EventMergeGroup :: "MergeGroup option"
  EventRepo :: "Repository option"
  EventInstallation :: "Installation option"

record RequiredStatusCheck =
  Context :: string
  AppID :: "64 word option"

record RequiredStatusChecks =
  Checks :: "RequiredStatusCheck option list option"

record Protection =
  ProtRequiredStatusChecks :: "RequiredStatusChecks option"

record CreateCheckRunOptions =
  CheckName :: string
  CheckHeadSHA :: string
  CheckStatus :: "string option"
  CheckConclusion :: "string option"

definition GetAction :: "MergeGroupEvent \<Rightarrow> string" where
  "GetAction e = str_or_empty (Action e)"

definition GetBaseRef :: "MergeGroup option \<Rightarrow> string" where
  "GetBaseRef m = (case m of None \<Rightarrow> [] | Some x \<Rightarrow> str_or_empty (MGBaseRef x))"

definition GetHeadSHA :: "MergeGroup option \<Rightarrow> string" where
  "GetHeadSHA m = (case m of None \<Rightarrow> [] | Some x \<Rightarrow> str_or_empty (MGHeadSHA x))"

definition GetInstallationIDFromEvent :: "MergeGroupEvent \<Rightarrow> 64 word" where
  \<comment> \<open>\<^verbatim>\<open>event.GetInstallation().GetID()\<close>\<close>
  "GetInstallationIDFromEvent e =
     (case EventInstallation e of None \<Rightarrow> 0
      | Some i \<Rightarrow> (case ID i of None \<Rightarrow> 0 | Some n \<Rightarrow> n))"

definition GetAppID :: "RequiredStatusCheck option \<Rightarrow> 64 word" where
  "GetAppID ch = (case ch of None \<Rightarrow> 0
      | Some x \<Rightarrow> (case AppID x of None \<Rightarrow> 0 | Some n \<Rightarrow> n))"

definition GetRequiredStatusChecks :: "Protection option \<Rightarrow> RequiredStatusChecks option" where
  "GetRequiredStatusChecks p = (case p of None \<Rightarrow> None | Some x \<Rightarrow> ProtRequiredStatusChecks x)"

definition GetChecks :: "RequiredStatusChecks option \<Rightarrow> RequiredStatusCheck option list" where
  "GetChecks r = (case r of None \<Rightarrow> []
      | Some x \<Rightarrow> (case Checks x of None \<Rightarrow> [] | Some cs \<Rightarrow> cs))"

text \<open>One call of \<^verbatim>\<open>client.Checks.CreateCheckRun\<close>, with the error it returned.\<close>

record 'e check_run_call =
  CallOwner :: string
  CallRepo :: string
  CallOptions :: CreateCheckRunOptions
  CallError :: "'e option"

text \<open>What the handler calls outside the repository: the JSON decoder, the client
  factory and the two API calls. Whether \<^verbatim>\<open>CreateCheckRun\<close> fails may depend on the calls
  made before it, so it reads the trace.\<close>

record ('p, 'e) merge_group_env =
  Unmarshal :: "'p \<Rightarrow> 'e + MergeGroupEvent"
  NewInstallationClient :: "64 word \<Rightarrow> 'e option"
  GetBranchProtection :: "string \<Rightarrow> string \<Rightarrow> string \<Rightarrow> 'e + Protection option"
  CreateCheckRun :: "'e check_run_call list \<Rightarrow> string \<Rightarrow> string \<Rightarrow> CreateCheckRunOptions \<Rightarrow> 'e option"

datatype 'e handle_error = ParseFailed 'e | Propagated 'e

datatype 'e handle_result = Return "'e handle_error option" | Panic

text \<open>The loop over the required checks, threading the trace of calls. The first
  component of the result says whether the loop panicked: \<^verbatim>\<open>ch.Context\<close> dereferences
  the element, which \<^verbatim>\<open>GetAppID\<close> reads as 0 when it is nil. An error of
  \<^verbatim>\<open>CreateCheckRun\<close> is logged and the loop goes on.\<close>

fun Handle_checks ::
  "('p, 'e) merge_group_env \<Rightarrow> string \<Rightarrow> string \<Rightarrow> string \<Rightarrow> RequiredStatusCheck option list
     \<Rightarrow> 'e check_run_call list \<Rightarrow> bool \<times> 'e check_run_call list"
where
  "Handle_checks env repositoryOwner repositoryName headSHA [] trace = (False, trace)"
| "Handle_checks env repositoryOwner repositoryName headSHA (ch # chs) trace =
     (if GetAppID ch \<noteq> 0
      then Handle_checks env repositoryOwner repositoryName headSHA chs trace
      else case ch of
        None \<Rightarrow> (True, trace)
      | Some c \<Rightarrow>
          (let checkRunOptions =
                 \<lparr>CheckName = Context c, CheckHeadSHA = headSHA,
                  CheckStatus = Some ''completed'', CheckConclusion = Some ''success''\<rparr>;
               err = CreateCheckRun env trace repositoryOwner repositoryName checkRunOptions
           in Handle_checks env repositoryOwner repositoryName headSHA chs
                (trace @ [\<lparr>CallOwner = repositoryOwner, CallRepo = repositoryName,
                            CallOptions = checkRunOptions, CallError = err\<rparr>])))"

definition MergeGroupHandler_Handle ::
  "('p, 'e) merge_group_env \<Rightarrow> 'p \<Rightarrow> 'e handle_result \<times> 'e check_run_call list"
where
  "MergeGroupHandler_Handle env payload =
     (case Unmarshal env payload of
        Inl err \<Rightarrow> (Return (Some (ParseFailed err)), [])
      | Inr event \<Rightarrow>
          if GetAction event \<noteq> ''checks_requested'' then (Return None, [])
          else
            (let installationID = GetInstallationIDFromEvent event;
                 repository = EventRepo event
             in case NewInstallationClient env installationID of
                  Some err \<Rightarrow> (Return (Some (Propagated err)), [])
                | None \<Rightarrow>
                    (let repositoryOwner = GetLogin (GetOwner repository);
                         repositoryName = GetName repository;
                         branchRef = GetBaseRef (EventMergeGroup event)
                     in case GetBranchProtection env repositoryOwner repositoryName branchRef of
                          Inl err \<Rightarrow> (Return (Some (Propagated err)), [])
                        | Inr branchPro \<Rightarrow>
                            (let headSHA = GetHeadSHA (EventMergeGroup event);
                                 r = Handle_checks env repositoryOwner repositoryName headSHA
                                       (GetChecks (GetRequiredStatusChecks branchPro)) []
                             in if fst r then (Panic, snd r) else (Return None, snd r)))))"

section \<open>An instance of the regular-expression package\<close>

text \<open>Statements at concrete inputs need a package that computes. \<open>go_regexp\<close> follows
  the documentation of Go's \<^verbatim>\<open>regexp\<close> and \<^verbatim>\<open>regexp/syntax\<close> on the part of the syntax
  that the repository's tests and the instances below use:
  \<^item> a literal character, \<^verbatim>\<open>.\<close> (any character but newline), \<^verbatim>\<open>^\<close> and \<^verbatim>\<open>$\<close> (no flag is
    set, so they stand for the beginning and the end of the text), a backslash before
    ASCII punctuation (that character itself);
  \<^item> concatenation, alternation \<^verbatim>\<open>|\<close>, which binds weaker than concatenation, capturing
    groups \<^verbatim>\<open>( )\<close> numbered by their opening parenthesis, and the greedy operators \<^verbatim>\<open>*\<close>,
    \<^verbatim>\<open>+\<close>, \<^verbatim>\<open>?\<close> on the item before them;
  \<^item> the errors "missing closing )", "unexpected )", "missing argument to repetition
    operator", "invalid nested repetition operator" and "trailing backslash at end of
    expression";
  \<^item> the leftmost match, and among the matches at that position the one a backtracking
    search finds first; a group that took no part in the match reads as the empty string.

  Character classes, counted repetition, flags and non-capturing groups, non-greedy
  operators, a backslash before a letter or a digit and bytes beyond ASCII in the
  expression are outside this part. The parser answers \<open>Unsupported\<close> there, apart from
  the errors above, and \<open>go_Compile\<close> then has to answer \<open>None\<close>, which says nothing about
  Go. So a statement below that rests on a compile error names the error through
  \<open>parse_expr\<close>, and no statement evaluates an expression that is \<open>Unsupported\<close>.\<close>

datatype regex =
    Lit char
  | AnyCharNotNL
  | BeginText
  | EndText
  | EmptyMatch
  | Cat regex regex
  | Alt regex regex
  | Star regex
  | Quest regex
  | Capture nat regex

text \<open>The text is UTF-8 and \<^verbatim>\<open>.\<close> takes one rune. \<open>rune_width\<close> is the number of bytes
  that \<^verbatim>\<open>utf8.DecodeRuneInString\<close> reads at the head of a non-empty string: the length
  of a well-formed encoding, and 1 for a byte that does not start one.\<close>

definition byte_in :: "char \<Rightarrow> nat \<Rightarrow> nat \<Rightarrow> bool" where
  "byte_in c lo hi \<longleftrightarrow> lo \<le> of_char c \<and> of_char c \<le> (hi :: nat)"

definition rune_width :: "string \<Rightarrow> nat" where
  "rune_width s =
     (case s of
        [] \<Rightarrow> 0
      | b0 # rest \<Rightarrow>
          if byte_in b0 0x00 0x7F then 1
          else if byte_in b0 0xC2 0xDF then
            (case rest of b1 # _ \<Rightarrow> if byte_in b1 0x80 0xBF then 2 else 1 | [] \<Rightarrow> 1)
          else if byte_in b0 0xE0 0xEF then
            (case rest of
               b1 # b2 # _ \<Rightarrow>
                 if byte_in b1 (if b0 = CHR 0xE0 then 0xA0 else 0x80)
                               (if b0 = CHR 0xED then 0x9F else 0xBF)
                    \<and> byte_in b2 0x80 0xBF
                 then 3 else 1
             | _ \<Rightarrow> 1)
          else if byte_in b0 0xF0 0xF4 then
            (case rest of
               b1 # b2 # b3 # _ \<Rightarrow>
                 if byte_in b1 (if b0 = CHR 0xF0 then 0x90 else 0x80)
                               (if b0 = CHR 0xF4 then 0x8F else 0xBF)
                    \<and> byte_in b2 0x80 0xBF \<and> byte_in b3 0x80 0xBF
                 then 4 else 1
             | _ \<Rightarrow> 1)
          else 1)"

text \<open>A search state is the byte position in the text, the rest of the text, and the
  groups closed so far, the latest first, each with its start and end position.
  \<open>backtrack\<close> lists the states after a match of the expression, in the order of
  preference. An iteration of \<^verbatim>\<open>*\<close> that consumed nothing is dropped, with the groups
  it closed.\<close>

type_synonym caps = "(nat \<times> nat \<times> nat) list"

fun backtrack :: "regex \<Rightarrow> nat \<Rightarrow> string \<Rightarrow> caps \<Rightarrow> (nat \<times> string \<times> caps) list" where
  "backtrack (Lit c) i s cp =
     (case s of [] \<Rightarrow> [] | d # ds \<Rightarrow> if d = c then [(Suc i, ds, cp)] else [])"
| "backtrack AnyCharNotNL i s cp =
     (case s of
        [] \<Rightarrow> []
      | d # ds \<Rightarrow>
          if d \<noteq> CHR 0x0A then [(i + rune_width s, drop (rune_width s) s, cp)] else [])"
| "backtrack BeginText i s cp = (if i = 0 then [(i, s, cp)] else [])"
| "backtrack EndText i s cp = (if s = [] then [(i, s, cp)] else [])"
| "backtrack EmptyMatch i s cp = [(i, s, cp)]"
| "backtrack (Cat r1 r2) i s cp =
     concat (map (\<lambda>st. backtrack r2 (fst st) (fst (snd st)) (snd (snd st))) (backtrack r1 i s cp))"
| "backtrack (Alt r1 r2) i s cp = backtrack r1 i s cp @ backtrack r2 i s cp"
| "backtrack (Quest r) i s cp = backtrack r i s cp @ [(i, s, cp)]"
| "backtrack (Star r) i s cp =
     concat (map (\<lambda>st. if length (fst (snd st)) < length s
                         then backtrack (Star r) (fst st) (fst (snd st)) (snd (snd st)) else [])
                 (backtrack r i s cp)) @ [(i, s, cp)]"
| "backtrack (Capture k r) i s cp =
     map (\<lambda>st. (fst st, fst (snd st), (k, i, fst st) # snd (snd st))) (backtrack r i s cp)"

text \<open>The parser reads the expression from left to right. It holds the frame of the
  innermost open group (the alternatives closed so far and the items of the current
  concatenation, both latest first, and the number of the group, none at top level),
  the frames of the groups around it, the number of the next group, and whether the
  last token was a repetition operator (\<^verbatim>\<open>lastRepeat\<close> in \<^verbatim>\<open>regexp/syntax\<close>). Its
  answer is the parsed expression with the number of the next group, one of the error
  codes of \<^verbatim>\<open>regexp/syntax\<close>, or \<open>Unsupported\<close> for an expression outside the part
  described above. \<^verbatim>\<open>x+\<close> is read as \<^verbatim>\<open>xx*\<close>.\<close>

datatype ErrorCode =
    ErrMissingParen
  | ErrUnexpectedParen
  | ErrMissingRepeatArgument
  | ErrInvalidRepeatOp
  | ErrTrailingBackslash

datatype parse_result = Parsed regex nat | SyntaxError ErrorCode | Unsupported

fun mk_cat :: "regex list \<Rightarrow> regex" where
  "mk_cat [] = EmptyMatch"
| "mk_cat [r] = r"
| "mk_cat (r # rs) = Cat r (mk_cat rs)"

fun mk_alt :: "regex list \<Rightarrow> regex" where
  "mk_alt [] = EmptyMatch"
| "mk_alt [r] = r"
| "mk_alt (r # rs) = Alt r (mk_alt rs)"

type_synonym frame = "regex list \<times> regex list \<times> nat option"

definition collapse :: "frame \<Rightarrow> regex" where
  "collapse f =
     (let r = mk_alt (rev (mk_cat (rev (fst (snd f))) # fst f))
      in case snd (snd f) of None \<Rightarrow> r | Some k \<Rightarrow> Capture k r)"

definition push_item :: "regex \<Rightarrow> frame \<Rightarrow> frame" where
  "push_item r f = (fst f, r # fst (snd f), snd (snd f))"

definition isalnum :: "char \<Rightarrow> bool" where
  "isalnum c \<longleftrightarrow> byte_in c 0x30 0x39 \<or> byte_in c 0x41 0x5A \<or> byte_in c 0x61 0x7A"

fun parse :: "string \<Rightarrow> frame \<Rightarrow> frame list \<Rightarrow> nat \<Rightarrow> bool \<Rightarrow> parse_result" where
  "parse [] f outer n lastRepeat =
     (case outer of [] \<Rightarrow> Parsed (collapse f) n | _ # _ \<Rightarrow> SyntaxError ErrMissingParen)"
| "parse (c # cs) f outer n lastRepeat =
     (if c = CHR ''('' then
        (if take 1 cs = ''?'' then Unsupported
         else parse cs ([], [], Some n) (f # outer) (Suc n) False)
      else if c = CHR '')'' then
        (case outer of
           [] \<Rightarrow> SyntaxError ErrUnexpectedParen
         | f' # outer' \<Rightarrow> parse cs (push_item (collapse f) f') outer' n False)
      else if c = CHR ''|'' then
        parse cs (mk_cat (rev (fst (snd f))) # fst f, [], snd (snd f)) outer n False
      else if c = CHR ''*'' \<or> c = CHR ''+'' \<or> c = CHR ''?'' then
        (if lastRepeat then SyntaxError ErrInvalidRepeatOp
         else case fst (snd f) of
           [] \<Rightarrow> SyntaxError ErrMissingRepeatArgument
         | r # items \<Rightarrow>
             if take 1 cs = ''?'' then Unsupported
             else parse cs
                    (fst f,
                     (if c = CHR ''*'' then Star r
                      else if c = CHR ''+'' then Cat r (Star r)
                      else Quest r) # items,
                     snd (snd f))
                    outer n True)
      else if c = CHR 0x5C then
        (case cs of
           [] \<Rightarrow> SyntaxError ErrTrailingBackslash
         | d # ds \<Rightarrow>
             if byte_in d 0x00 0x7F \<and> \<not> isalnum d
             then parse ds (push_item (Lit d) f) outer n False
             else Unsupported)
      else if c = CHR ''['' \<or> c = CHR ''{'' \<or> \<not> byte_in c 0x00 0x7F then Unsupported
      else if c = CHR ''.'' then parse cs (push_item AnyCharNotNL f) outer n False
      else if c = CHR ''^'' then parse cs (push_item BeginText f) outer n False
      else if c = CHR ''$'' then parse cs (push_item EndText f) outer n False
      else parse cs (push_item (Lit c) f) outer n False)"

definition parse_expr :: "string \<Rightarrow> parse_result" where
  "parse_expr expr = parse expr ([], [], None) [] 1 False"

record Regexp =
  prog :: regex
  numSubexp :: nat

definition go_Compile :: "string \<Rightarrow> Regexp option" where
  "go_Compile expr =
     (case parse_expr expr of
        Parsed r n \<Rightarrow> Some \<lparr>prog = r, numSubexp = n - 1\<rparr>
      | SyntaxError e \<Rightarrow> None
      | Unsupported \<Rightarrow> None)"

text \<open>The search tries the start positions from the left, one rune apart.\<close>

fun find_from :: "regex \<Rightarrow> nat \<Rightarrow> string \<Rightarrow> (nat \<times> nat \<times> caps) option" where
  "find_from r i s =
     (case backtrack r i s [] of
        st # _ \<Rightarrow> Some (i, fst st, snd (snd st))
      | [] \<Rightarrow>
          (case s of
             [] \<Rightarrow> None
           | _ # s' \<Rightarrow> find_from r (i + rune_width s) (drop (rune_width s - 1) s')))"

definition substr :: "string \<Rightarrow> nat \<Rightarrow> nat \<Rightarrow> string" where
  "substr s i j = take (j - i) (drop i s)"

definition go_FindStringSubmatch :: "Regexp \<Rightarrow> string \<Rightarrow> string list option" where
  "go_FindStringSubmatch re s =
     (case find_from (prog re) 0 s of
        None \<Rightarrow> None
      | Some (i, j, cp) \<Rightarrow>
          Some (substr s i j #
                map (\<lambda>k. case map_of cp k of None \<Rightarrow> [] | Some (a, b) \<Rightarrow> substr s a b)
                    [1 ..< Suc (numSubexp re)]))"

definition go_MatchString :: "Regexp \<Rightarrow> string \<Rightarrow> bool" where
  "go_MatchString re s \<longleftrightarrow> find_from (prog re) 0 s \<noteq> None"

definition go_regexp :: "Regexp regexp_pkg" where
  "go_regexp = \<lparr>Compile = go_Compile, MatchString = go_MatchString,
                 FindStringSubmatch = go_FindStringSubmatch\<rparr>"

section \<open>Concrete configurations and events\<close>

text \<open>The path rules of \<^verbatim>\<open>Test_ShouldRunWorkflow\<close>, and a file of the pull request by
  its name.\<close>

definition test_config :: ArianeConfig where
  "test_config =
     \<lparr>Triggers = [(''/foo'', \<lparr>TriggerWorkflows = [''foo.yaml'']\<rparr>),
                  (''/bar'', \<lparr>TriggerWorkflows = [''bar.yaml'']\<rparr>),
                  (''/enterprise-foo'', \<lparr>TriggerWorkflows = [''enterprise-foo.yaml'']\<rparr>)],
      Workflows =
        [''bar.yaml'' \<mapsto> \<lparr>PathsRegex = ''(x|y)/'', PathsIgnoreRegex = []\<rparr>,
         ''foo.yaml'' \<mapsto> \<lparr>PathsRegex = [], PathsIgnoreRegex = ''(test|Documentation|myproject)/''\<rparr>,
         ''enterprise-foo.yaml'' \<mapsto> \<lparr>PathsRegex = [], PathsIgnoreRegex = []\<rparr>,
         ''foobar.yaml'' \<mapsto> \<lparr>PathsRegex = ''(x|y)/'',
                               PathsIgnoreRegex = ''(test|Documentation|myproject)/''\<rparr>],
      AllowedTeams = [''team1'', ''team2'']\<rparr>"

definition changed :: "string \<Rightarrow> CommitFile option" where
  "changed name = Some \<lparr>Filename = Some name\<rparr>"

text \<open>A rule that ignores the directory \<^verbatim>\<open>.github\<close>, and a rule whose expression has
  an unclosed group.\<close>

definition ignore_github_config :: ArianeConfig where
  "ignore_github_config =
     \<lparr>Triggers = [(''/foo'', \<lparr>TriggerWorkflows = [''foo.yaml'']\<rparr>)],
      Workflows = [''foo.yaml'' \<mapsto> \<lparr>PathsRegex = [], PathsIgnoreRegex = ''.github/''\<rparr>],
      AllowedTeams = []\<rparr>"

definition unclosed_group_config :: ArianeConfig where
  "unclosed_group_config =
     \<lparr>Triggers = [(''/bar'', \<lparr>TriggerWorkflows = [''bar.yaml'']\<rparr>)],
      Workflows = [''bar.yaml'' \<mapsto> \<lparr>PathsRegex = ''(x|y/'', PathsIgnoreRegex = []\<rparr>],
      AllowedTeams = []\<rparr>"

text \<open>The compiled form of \<^verbatim>\<open>^(test|Documentation|myproject)/\<close>.\<close>

definition test_ignore_re :: Regexp where
  "test_ignore_re =
     \<lparr>prog = Cat BeginText
               (Cat (Capture 1 (Alt (mk_cat (map Lit ''test''))
                               (Alt (mk_cat (map Lit ''Documentation''))
                                    (mk_cat (map Lit ''myproject'')))))
                    (Lit CHR ''/'')),
      numSubexp = 1\<rparr>"

text \<open>Answers of the API to the question for the latest run: one run with the given
  status and conclusion, and no run.\<close>

definition runs_with :: "string \<Rightarrow> string \<Rightarrow> unit list_runs" where
  "runs_with status conclusion = (\<lambda>owner repo workflow opts.
     Inr (Some \<lparr>Runs = [Some \<lparr>Status = Some status, Conclusion = Some conclusion\<rparr>]\<rparr>))"

definition no_runs :: "unit list_runs" where
  "no_runs = (\<lambda>owner repo workflow opts. Inr (Some \<lparr>Runs = []\<rparr>))"

text \<open>Trigger tables: one with an expression that does not compile before a valid
  one, one with an alternation at top level, the same alternation inside a group, the
  table of the first two cases of \<^verbatim>\<open>Test_CheckForTrigger\<close>, and one whose first
  pattern ends in a backslash, with and without that entry.\<close>

definition broken_trigger_config :: ArianeConfig where
  "broken_trigger_config =
     \<lparr>Triggers = [(''/broken('', \<lparr>TriggerWorkflows = [''broken.yaml'']\<rparr>),
                  (''/test'', \<lparr>TriggerWorkflows = [''test.yaml'']\<rparr>)],
      Workflows = Map.empty, AllowedTeams = []\<rparr>"

definition alternation_config :: ArianeConfig where
  "alternation_config =
     \<lparr>Triggers = [(''/foo|/bar'', \<lparr>TriggerWorkflows = [''foo.yaml'']\<rparr>)],
      Workflows = Map.empty, AllowedTeams = []\<rparr>"

definition cute_config :: ArianeConfig where
  "cute_config =
     \<lparr>Triggers = [(''/cute'', \<lparr>TriggerWorkflows = [''cte.yaml'']\<rparr>)],
      Workflows = Map.empty, AllowedTeams = []\<rparr>"

definition grouped_alternation_config :: ArianeConfig where
  "grouped_alternation_config =
     \<lparr>Triggers = [(''(/foo|/bar)'', \<lparr>TriggerWorkflows = [''foo.yaml'']\<rparr>)],
      Workflows = Map.empty, AllowedTeams = []\<rparr>"

definition trailing_backslash_config :: ArianeConfig where
  "trailing_backslash_config =
     \<lparr>Triggers = [(''/test'' @ [CHR 0x5C], \<lparr>TriggerWorkflows = [''a.yaml'']\<rparr>),
                  (''/test.'', \<lparr>TriggerWorkflows = [''b.yaml'']\<rparr>)],
      Workflows = Map.empty, AllowedTeams = []\<rparr>"

definition without_backslash_config :: ArianeConfig where
  "without_backslash_config =
     \<lparr>Triggers = [(''/test.'', \<lparr>TriggerWorkflows = [''b.yaml'']\<rparr>)],
      Workflows = Map.empty, AllowedTeams = []\<rparr>"

text \<open>The compiled form of \<^verbatim>\<open>^/test$\<close>.\<close>

definition test_trigger_re :: Regexp where
  "test_trigger_re =
     \<lparr>prog = mk_cat ([BeginText] @ map Lit ''/test'' @ [EndText]), numSubexp = 0\<rparr>"

text \<open>The context of a handler, which carries a logger
  (\<^verbatim>\<open>ctx = log.WithLogger(ctx, &logger)\<close>).\<close>

definition handler_ctx :: Context where
  "handler_ctx = WithLogger Background Logger"

text \<open>A merge-group event for \<^verbatim>\<open>cilium/cilium\<close> and a branch protection with three
  required checks: one for any source, one of the app 15368, and one without an app
  identifier. The API refuses the check run of the first.\<close>

definition example_event :: MergeGroupEvent where
  "example_event =
     \<lparr>Action = Some ''checks_requested'',
      EventMergeGroup = Some \<lparr>MGBaseRef = Some ''refs/heads/main'', MGHeadSHA = Some ''0123abc''\<rparr>,
      EventRepo = Some \<lparr>Owner = Some \<lparr>Login = Some ''cilium''\<rparr>, RepoName = Some ''cilium''\<rparr>,
      EventInstallation = Some \<lparr>ID = Some 42\<rparr>\<rparr>"

definition example_checks :: "RequiredStatusCheck list" where
  "example_checks =
     [\<lparr>Context = ''lint'', AppID = Some 0\<rparr>,
      \<lparr>Context = ''build'', AppID = Some 15368\<rparr>,
      \<lparr>Context = ''docs'', AppID = None\<rparr>]"

definition example_env :: "(unit, string) merge_group_env" where
  "example_env =
     \<lparr>Unmarshal = (\<lambda>payload. Inr example_event),
      NewInstallationClient = (\<lambda>installationID. None),
      GetBranchProtection = (\<lambda>owner repo branch.
        Inr (Some \<lparr>ProtRequiredStatusChecks = Some \<lparr>Checks = Some (map Some example_checks)\<rparr>\<rparr>)),
      CreateCheckRun = (\<lambda>trace owner repo opts.
        if CheckName opts = ''lint'' then Some ''502 Bad Gateway'' else None)\<rparr>"

definition check_run :: "string \<Rightarrow> CreateCheckRunOptions" where
  "check_run name = \<lparr>CheckName = name, CheckHeadSHA = ''0123abc'',
      CheckStatus = Some ''completed'', CheckConclusion = Some ''success''\<rparr>"

text \<open>A pull request of the repository \<^verbatim>\<open>cilium/cilium\<close> whose head branch lives in the
  repository of \<open>headOwner\<close>.\<close>

definition example_pr :: "string \<Rightarrow> PullRequest option" where
  "example_pr headOwner = Some \<lparr>
     Head = Some \<lparr>Ref = Some ''pr/feature'', SHA = Some ''0123abc'',
                  Repo = Some \<lparr>Owner = Some \<lparr>Login = Some headOwner\<rparr>,
                               RepoName = Some ''cilium''\<rparr>\<rparr>,
     Base = Some \<lparr>Ref = Some ''main'', SHA = Some ''fedcba9'',
                  Repo = Some \<lparr>Owner = Some \<lparr>Login = Some ''cilium''\<rparr>,
                               RepoName = Some ''cilium''\<rparr>\<rparr>\<rparr>"

section \<open>Properties\<close>

subsection \<open>The policy for workflows without configuration\<close>

lemma ShouldRunOnlyWorkflows_iff:
  "ShouldRunOnlyWorkflows workflow files \<longleftrightarrow>
     (\<exists>file \<in> set files. \<not> HasPrefix (GetFilename file) ''.github/workflows''
        \<or> GetFilename file = workflow_file workflow)"
  by (induction files) (auto simp: Let_def)

text \<open>Claim C6. \<^verbatim>\<open>ShouldRunOnlyWorkflows\<close> returns true exactly when some changed file
  has a name that does not begin with \<^verbatim>\<open>.github/workflows\<close> or that is
  \<^verbatim>\<open>.github/workflows/<workflow>\<close>. It returns false for the empty list, and for the
  list of \<^verbatim>\<open>.github/workflows/bar.yaml\<close> alone when the workflow is \<^verbatim>\<open>foo.yaml\<close>.\<close>

theorem ShouldRunOnlyWorkflows_exists:
  "(ShouldRunOnlyWorkflows workflow files \<longleftrightarrow>
      (\<exists>file \<in> set files.
         \<not> HasPrefix (GetFilename file) ''.github/workflows''
         \<or> GetFilename file = ''.github/workflows/'' @ workflow))
   \<and> \<not> ShouldRunOnlyWorkflows workflow []
   \<and> \<not> ShouldRunOnlyWorkflows ''foo.yaml'' [changed ''.github/workflows/bar.yaml'']"
  by (simp add: ShouldRunOnlyWorkflows_iff workflow_file_def changed_def HasPrefix_def)

theorem ShouldRunOnlyWorkflows_exists_witness:
  "ShouldRunOnlyWorkflows ''foo.yaml''
     [changed ''.github/workflows/bar.yaml'', changed ''test/testdata.json'']
   \<and> ShouldRunOnlyWorkflows ''foo.yaml''
     [changed ''.github/workflows/bar.yaml'', changed ''.github/workflows/foo.yaml'']"
  using ShouldRunOnlyWorkflows_exists [of "''foo.yaml''"
          "[changed ''.github/workflows/bar.yaml'', changed ''test/testdata.json'']"]
        ShouldRunOnlyWorkflows_exists [of "''foo.yaml''"
          "[changed ''.github/workflows/bar.yaml'', changed ''.github/workflows/foo.yaml'']"]
  by (simp add: changed_def HasPrefix_def workflow_file_def)

text \<open>Claim C10. \<^verbatim>\<open>ShouldRunOnlyWorkflows\<close> is monotone in the file list: when it returns
  true for a list, it returns true for that list with further files appended.\<close>

theorem ShouldRunOnlyWorkflows_append:
  "ShouldRunOnlyWorkflows workflow files \<Longrightarrow> ShouldRunOnlyWorkflows workflow (files @ extra)"
  by (auto simp: ShouldRunOnlyWorkflows_iff)

theorem ShouldRunOnlyWorkflows_append_witness:
  "ShouldRunOnlyWorkflows ''foo.yaml'' [changed ''test/testdata.json'']
   \<and> ShouldRunOnlyWorkflows ''foo.yaml''
        ([changed ''test/testdata.json''] @ [changed ''.github/workflows/bar.yaml''])"
proof -
  have h: "ShouldRunOnlyWorkflows ''foo.yaml'' [changed ''test/testdata.json'']"
    by (simp add: changed_def HasPrefix_def)
  from ShouldRunOnlyWorkflows_append [OF h, of "[changed ''.github/workflows/bar.yaml'']"] h
  show ?thesis by simp
qed

subsection \<open>The context reference\<close>

text \<open>Claim C7. \<^verbatim>\<open>determineContextRef\<close> returns the base branch of the pull request
  when the owner or the name of the head repository differs from the repository of the
  event, and the head branch otherwise; the SHA it returns is the head SHA in both
  cases.\<close>

theorem determineContextRef_fork:
  "(GetLogin (GetOwner (GetRepo (GetHead pr))) \<noteq> owner \<or> GetName (GetRepo (GetHead pr)) \<noteq> repo
      \<longrightarrow> fst (determineContextRef pr owner repo) = GetRef (GetBase pr))
   \<and> (GetLogin (GetOwner (GetRepo (GetHead pr))) = owner \<and> GetName (GetRepo (GetHead pr)) = repo
      \<longrightarrow> fst (determineContextRef pr owner repo) = GetRef (GetHead pr))
   \<and> snd (determineContextRef pr owner repo) = GetSHA (GetHead pr)"
  by (simp add: determineContextRef_def Let_def)

theorem determineContextRef_fork_witness:
  "determineContextRef (example_pr ''contributor'') ''cilium'' ''cilium'' = (''main'', ''0123abc'')
   \<and> determineContextRef (example_pr ''cilium'') ''cilium'' ''cilium'' = (''pr/feature'', ''0123abc'')"
  using determineContextRef_fork [of "example_pr ''contributor''" "''cilium''" "''cilium''"]
        determineContextRef_fork [of "example_pr ''cilium''" "''cilium''" "''cilium''"]
  by (simp add: example_pr_def GetLogin_def GetOwner_def GetRepo_def GetHead_def GetName_def
        GetRef_def GetBase_def GetSHA_def str_or_empty_def prod_eq_iff)

subsection \<open>The latest run of a workflow\<close>

text \<open>Claim C4. \<^verbatim>\<open>shouldSkipWorkflow\<close> returns true exactly when the API answers with
  at least one run and the first, the latest, has status \<^verbatim>\<open>completed\<close> and conclusion
  \<^verbatim>\<open>success\<close> or \<^verbatim>\<open>skipped\<close>. It returns false when the conclusion is \<^verbatim>\<open>failure\<close>,
  when the status is not \<^verbatim>\<open>completed\<close>, and when there is no run for the commit.\<close>

theorem shouldSkipWorkflow_iff:
  assumes "ListWorkflowRunsByFileName owner repo workflow \<lparr>OptHeadSHA = sha, OptPerPage = 1\<rparr>
             = response"
  shows "(shouldSkipWorkflow ListWorkflowRunsByFileName owner repo workflow sha \<longleftrightarrow>
            (\<exists>rs lastRun rest.
               response = Inr (Some rs) \<and> Runs rs = lastRun # rest
               \<and> GetStatus lastRun = ''completed''
               \<and> (GetConclusion lastRun = ''success'' \<or> GetConclusion lastRun = ''skipped'')))
         \<and> (\<forall>rs lastRun rest.
               response = Inr (Some rs) \<and> Runs rs = lastRun # rest
               \<and> (GetConclusion lastRun = ''failure'' \<or> GetStatus lastRun \<noteq> ''completed'')
               \<longrightarrow> \<not> shouldSkipWorkflow ListWorkflowRunsByFileName owner repo workflow sha)
         \<and> (response = Inr None \<or> (\<exists>rs. response = Inr (Some rs) \<and> Runs rs = [])
               \<longrightarrow> \<not> shouldSkipWorkflow ListWorkflowRunsByFileName owner repo workflow sha)"
  using assms
  by (auto simp: shouldSkipWorkflow_def Let_def split: sum.splits option.splits list.splits)

theorem shouldSkipWorkflow_iff_witness:
  "shouldSkipWorkflow (runs_with ''completed'' ''success'') ''cilium'' ''cilium'' ''foo.yaml'' ''0123abc''
   \<and> shouldSkipWorkflow (runs_with ''completed'' ''skipped'') ''cilium'' ''cilium'' ''foo.yaml'' ''0123abc''
   \<and> \<not> shouldSkipWorkflow (runs_with ''completed'' ''failure'') ''cilium'' ''cilium'' ''foo.yaml'' ''0123abc''
   \<and> \<not> shouldSkipWorkflow (runs_with ''in_progress'' []) ''cilium'' ''cilium'' ''foo.yaml'' ''0123abc''
   \<and> \<not> shouldSkipWorkflow no_runs ''cilium'' ''cilium'' ''foo.yaml'' ''0123abc''"
  using shouldSkipWorkflow_iff [OF refl, of "runs_with ''completed'' ''success''"
          "''cilium''" "''cilium''" "''foo.yaml''" "''0123abc''"]
        shouldSkipWorkflow_iff [OF refl, of "runs_with ''completed'' ''skipped''"
          "''cilium''" "''cilium''" "''foo.yaml''" "''0123abc''"]
        shouldSkipWorkflow_iff [OF refl, of "runs_with ''completed'' ''failure''"
          "''cilium''" "''cilium''" "''foo.yaml''" "''0123abc''"]
        shouldSkipWorkflow_iff [OF refl, of "runs_with ''in_progress'' []"
          "''cilium''" "''cilium''" "''foo.yaml''" "''0123abc''"]
        shouldSkipWorkflow_iff [OF refl, of no_runs
          "''cilium''" "''cilium''" "''foo.yaml''" "''0123abc''"]
  by (simp add: runs_with_def no_runs_def GetStatus_def GetConclusion_def str_or_empty_def)

subsection \<open>Workflows with path rules\<close>

lemma ShouldRunWorkflow_loop_None:
  "ShouldRunWorkflow_loop pkg workflow re reIgnore files n = None \<longleftrightarrow>
     (\<exists>file \<in> set files. GetFilename file = workflow_file workflow
        \<or> re_matches pkg re (GetFilename file))"
  by (induction files arbitrary: n) (auto simp: Let_def)

lemma ShouldRunWorkflow_loop_Some:
  "ShouldRunWorkflow_loop pkg workflow re reIgnore files n = Some m \<Longrightarrow>
   m = n + length (filter (\<lambda>file. HasPrefix (GetFilename file) ''.github/workflows''
                             \<or> re_matches pkg reIgnore (GetFilename file)) files)"
proof (induction files arbitrary: n)
  case Nil
  then show ?case by simp
next
  case (Cons f fs)
  show ?case
  proof (cases "HasPrefix (GetFilename f) ''.github/workflows''
                \<or> re_matches pkg reIgnore (GetFilename f)")
    case True
    with Cons.prems have "ShouldRunWorkflow_loop pkg workflow re reIgnore fs (n + 1) = Some m"
      by (auto simp: Let_def split: if_splits)
    from Cons.IH [OF this] True show ?thesis by simp
  next
    case False
    with Cons.prems have "ShouldRunWorkflow_loop pkg workflow re reIgnore fs n = Some m"
      by (auto simp: Let_def split: if_splits)
    from Cons.IH [OF this] False show ?thesis by simp
  qed
qed

lemma length_filter_less_iff:
  "length (filter P xs) < length xs \<longleftrightarrow> (\<exists>x \<in> set xs. \<not> P x)"
proof
  assume "length (filter P xs) < length xs"
  then have "filter P xs \<noteq> xs" by auto
  then show "\<exists>x \<in> set xs. \<not> P x" by (auto simp: filter_id_conv)
next
  assume "\<exists>x \<in> set xs. \<not> P x"
  then show "length (filter P xs) < length xs" by (auto intro: length_filter_less)
qed

lemma ShouldRunWorkflow_scan:
  assumes "Workflows config workflow = Some workflowConfig"
    and "PathsRegex workflowConfig = [] \<or> PathsIgnoreRegex workflowConfig = []"
    and "compile_if_set pkg (PathsRegex workflowConfig) = Some re"
    and "compile_if_set pkg (PathsIgnoreRegex workflowConfig) = Some reIgnore"
  shows "ShouldRunWorkflow ctx pkg config workflow files = Returns
          ((\<exists>file \<in> set files. GetFilename file = workflow_file workflow
              \<or> re_matches pkg re (GetFilename file))
         \<or> (\<not> (re \<noteq> None \<and> reIgnore = None)
            \<and> (\<exists>file \<in> set files. \<not> (HasPrefix (GetFilename file) ''.github/workflows''
                                        \<or> re_matches pkg reIgnore (GetFilename file)))))"
proof (cases "ShouldRunWorkflow_loop pkg workflow re reIgnore files 0")
  case None
  with assms show ?thesis
    using ShouldRunWorkflow_loop_None [of pkg workflow re reIgnore files 0]
    by (cases files) (auto simp: ShouldRunWorkflow_def)
next
  case (Some m)
  from ShouldRunWorkflow_loop_Some [OF Some]
  have m: "m = length (filter (\<lambda>file. HasPrefix (GetFilename file) ''.github/workflows''
                             \<or> re_matches pkg reIgnore (GetFilename file)) files)"
    by simp
  have nn: "\<not> (\<exists>file \<in> set files. GetFilename file = workflow_file workflow
        \<or> re_matches pkg re (GetFilename file))"
    using ShouldRunWorkflow_loop_None [of pkg workflow re reIgnore files 0] Some by simp
  show ?thesis
  proof (cases files)
    case Nil
    then show ?thesis by (simp add: ShouldRunWorkflow_def)
  next
    case (Cons f fs)
    have "ShouldRunWorkflow ctx pkg config workflow files = Returns
            (if re \<noteq> None \<and> reIgnore = None then False else m < length files)"
      using assms Some Cons by (auto simp: ShouldRunWorkflow_def)
    then show ?thesis
      using nn unfolding m length_filter_less_iff by auto
  qed
qed

text \<open>Claim C5. For a workflow whose rule sets both \<^verbatim>\<open>PathsRegex\<close> and
  \<^verbatim>\<open>PathsIgnoreRegex\<close>, \<^verbatim>\<open>ShouldRunWorkflow\<close> returns true for every non-empty file
  list, whatever the files, and false for the empty list, in every context.\<close>

theorem ShouldRunWorkflow_both_regexes:
  "Workflows config workflow = Some workflowConfig \<Longrightarrow>
   PathsRegex workflowConfig \<noteq> [] \<Longrightarrow> PathsIgnoreRegex workflowConfig \<noteq> [] \<Longrightarrow>
   ShouldRunWorkflow ctx pkg config workflow files = Returns (files \<noteq> [])"
  by (simp add: ShouldRunWorkflow_def)

lemma test_config_foobar:
  "Workflows test_config ''foobar.yaml''
     = Some \<lparr>PathsRegex = ''(x|y)/'', PathsIgnoreRegex = ''(test|Documentation|myproject)/''\<rparr>"
  by (simp add: test_config_def)

theorem ShouldRunWorkflow_both_regexes_witness:
  "ShouldRunWorkflow Background go_regexp test_config ''foobar.yaml''
     [changed ''Documentation/operations-guide.rst''] = Returns True
   \<and> ShouldRunWorkflow Background go_regexp test_config ''foobar.yaml'' [] = Returns False"
  using ShouldRunWorkflow_both_regexes [OF test_config_foobar, of Background go_regexp
          "[changed ''Documentation/operations-guide.rst'']"]
        ShouldRunWorkflow_both_regexes [OF test_config_foobar, of Background go_regexp "[]"]
  by simp

text \<open>Claim C1, as amended. For a workflow whose rule sets only \<^verbatim>\<open>PathsIgnoreRegex\<close>,
  and the expression compiles with a leading \<^verbatim>\<open>^\<close>, \<^verbatim>\<open>ShouldRunWorkflow\<close> returns true
  exactly when some changed file is the workflow's own file, or some changed file neither
  begins with \<^verbatim>\<open>.github/workflows\<close> nor matches the expression. Hence, for a list without
  a name that begins with \<^verbatim>\<open>.github/workflows\<close>, it returns false if every file matches
  and true if some file does not. This holds in every context.\<close>

theorem ShouldRunWorkflow_ignore_only:
  assumes "Workflows config workflow = Some workflowConfig"
    and "PathsRegex workflowConfig = []"
    and "PathsIgnoreRegex workflowConfig \<noteq> []"
    and "Compile pkg (''^'' @ PathsIgnoreRegex workflowConfig) = Some reIgnore"
  shows "ShouldRunWorkflow ctx pkg config workflow files = Returns
            (\<exists>file \<in> set files.
               GetFilename file = ''.github/workflows/'' @ workflow
               \<or> (\<not> HasPrefix (GetFilename file) ''.github/workflows''
                   \<and> \<not> MatchString pkg reIgnore (GetFilename file)))
         \<and> ((\<forall>file \<in> set files. \<not> HasPrefix (GetFilename file) ''.github/workflows'') \<longrightarrow>
              ShouldRunWorkflow ctx pkg config workflow files = Returns
                 (\<exists>file \<in> set files. \<not> MatchString pkg reIgnore (GetFilename file)))"
proof -
  have c1: "compile_if_set pkg (PathsRegex workflowConfig) = Some None"
    and c2: "compile_if_set pkg (PathsIgnoreRegex workflowConfig) = Some (Some reIgnore)"
    using assms by (simp_all add: compile_if_set_def)
  have own: "HasPrefix (''.github/workflows/'' @ workflow) ''.github/workflows''"
    by (simp add: HasPrefix_def)
  from ShouldRunWorkflow_scan [OF assms(1) _ c1 c2, of ctx files] assms(2)
  have "ShouldRunWorkflow ctx pkg config workflow files = Returns
            (\<exists>file \<in> set files.
               GetFilename file = ''.github/workflows/'' @ workflow
               \<or> (\<not> HasPrefix (GetFilename file) ''.github/workflows''
                   \<and> \<not> MatchString pkg reIgnore (GetFilename file)))"
    by (auto simp: re_matches_def workflow_file_def)
  then show ?thesis using own by auto
qed

lemma test_config_foo:
  "Workflows test_config ''foo.yaml''
     = Some \<lparr>PathsRegex = [], PathsIgnoreRegex = ''(test|Documentation|myproject)/''\<rparr>"
  by (simp add: test_config_def)

lemma compile_test_ignore:
  "Compile go_regexp ''^(test|Documentation|myproject)/'' = Some test_ignore_re"
  by code_simp

lemma test_ignore_re_matches:
  "MatchString go_regexp test_ignore_re ''test/testdata.json''"
  "MatchString go_regexp test_ignore_re ''Documentation/operations-guide.rst''"
  "\<not> MatchString go_regexp test_ignore_re ''nocode/Documentation/operations-guide.rst''"
  "\<not> MatchString go_regexp test_ignore_re ''.github/workflows/bar.yaml''"
  by code_simp+

theorem ShouldRunWorkflow_ignore_only_witness:
  "ShouldRunWorkflow Background go_regexp test_config ''foo.yaml''
     [changed ''test/testdata.json'', changed ''nocode/Documentation/operations-guide.rst'']
     = Returns True
   \<and> ShouldRunWorkflow Background go_regexp test_config ''foo.yaml''
     [changed ''test/testdata.json'', changed ''Documentation/operations-guide.rst'']
     = Returns False"
proof -
  have c: "Compile go_regexp
             (''^'' @ PathsIgnoreRegex \<lparr>PathsRegex = [],
                        PathsIgnoreRegex = ''(test|Documentation|myproject)/''\<rparr>)
           = Some test_ignore_re"
    using compile_test_ignore by simp
  from ShouldRunWorkflow_ignore_only [OF test_config_foo _ _ c, of Background
         "[changed ''test/testdata.json'', changed ''nocode/Documentation/operations-guide.rst'']"]
       ShouldRunWorkflow_ignore_only [OF test_config_foo _ _ c, of Background
         "[changed ''test/testdata.json'', changed ''Documentation/operations-guide.rst'']"]
  show ?thesis
    by (simp add: changed_def HasPrefix_def test_ignore_re_matches)
qed

text \<open>The claim as it was stated fails in both directions. In the third case of
  \<^verbatim>\<open>Test_ShouldRunWorkflow\<close> the file of another workflow does not match the expression
  and the result is false; and the workflow's own file forces a run even where it
  matches the expression.\<close>

theorem ShouldRunWorkflow_ignore_only_counterexample:
  "Workflows test_config ''foo.yaml''
     = Some \<lparr>PathsRegex = [], PathsIgnoreRegex = ''(test|Documentation|myproject)/''\<rparr>
   \<and> Compile go_regexp ''^(test|Documentation|myproject)/'' \<noteq> None
   \<and> \<not> re_matches go_regexp (Compile go_regexp ''^(test|Documentation|myproject)/'')
          ''.github/workflows/bar.yaml''
   \<and> ShouldRunWorkflow Background go_regexp test_config ''foo.yaml''
          [changed ''.github/workflows/bar.yaml'', changed ''test/testdata.json'',
           changed ''Documentation/operations-guide.rst''] = Returns False
   \<and> Workflows ignore_github_config ''foo.yaml''
     = Some \<lparr>PathsRegex = [], PathsIgnoreRegex = ''.github/''\<rparr>
   \<and> re_matches go_regexp (Compile go_regexp ''^.github/'') ''.github/workflows/foo.yaml''
   \<and> ShouldRunWorkflow Background go_regexp ignore_github_config ''foo.yaml''
          [changed ''.github/workflows/foo.yaml''] = Returns True"
  by code_simp

lemma compile_if_set_ok:
  "regex \<noteq> [] \<longrightarrow> Compile pkg (''^'' @ regex) \<noteq> None \<Longrightarrow>
   \<exists>re. compile_if_set pkg regex = Some re"
  by (cases "regex = []") (auto simp: compile_if_set_def)

text \<open>Claim C2, as amended. When the workflow has a rule and some changed file is
  \<^verbatim>\<open>.github/workflows/<workflow>\<close>, \<^verbatim>\<open>ShouldRunWorkflow\<close> returns true, provided that both
  expressions are set or that each expression that is set compiles with a leading
  \<^verbatim>\<open>^\<close>. This holds in every context.\<close>

theorem ShouldRunWorkflow_own_file:
  assumes "Workflows config workflow = Some workflowConfig"
    and "file \<in> set files"
    and "GetFilename file = ''.github/workflows/'' @ workflow"
    and "(PathsRegex workflowConfig \<noteq> [] \<and> PathsIgnoreRegex workflowConfig \<noteq> [])
         \<or> ((PathsRegex workflowConfig \<noteq> [] \<longrightarrow>
                Compile pkg (''^'' @ PathsRegex workflowConfig) \<noteq> None)
             \<and> (PathsIgnoreRegex workflowConfig \<noteq> [] \<longrightarrow>
                Compile pkg (''^'' @ PathsIgnoreRegex workflowConfig) \<noteq> None))"
  shows "ShouldRunWorkflow ctx pkg config workflow files = Returns True"
proof (cases "PathsRegex workflowConfig \<noteq> [] \<and> PathsIgnoreRegex workflowConfig \<noteq> []")
  case True
  from assms(2) have "files \<noteq> []" by auto
  with True assms(1) show ?thesis by (simp add: ShouldRunWorkflow_def)
next
  case False
  with assms(4) have
    h1: "PathsRegex workflowConfig \<noteq> [] \<longrightarrow> Compile pkg (''^'' @ PathsRegex workflowConfig) \<noteq> None"
    and h2: "PathsIgnoreRegex workflowConfig \<noteq> [] \<longrightarrow>
       Compile pkg (''^'' @ PathsIgnoreRegex workflowConfig) \<noteq> None"
    by simp_all
  from compile_if_set_ok [OF h1] obtain re
    where c1: "compile_if_set pkg (PathsRegex workflowConfig) = Some re" ..
  from compile_if_set_ok [OF h2] obtain reIgnore
    where c2: "compile_if_set pkg (PathsIgnoreRegex workflowConfig) = Some reIgnore" ..
  from False have "PathsRegex workflowConfig = [] \<or> PathsIgnoreRegex workflowConfig = []"
    by simp
  then have scan: "ShouldRunWorkflow ctx pkg config workflow files = Returns
          ((\<exists>file \<in> set files. GetFilename file = workflow_file workflow
              \<or> re_matches pkg re (GetFilename file))
         \<or> (\<not> (re \<noteq> None \<and> reIgnore = None)
            \<and> (\<exists>file \<in> set files. \<not> (HasPrefix (GetFilename file) ''.github/workflows''
                                        \<or> re_matches pkg reIgnore (GetFilename file)))))"
    by (rule ShouldRunWorkflow_scan [OF assms(1) _ c1 c2])
  have "\<exists>file \<in> set files. GetFilename file = workflow_file workflow
              \<or> re_matches pkg re (GetFilename file)"
    using assms(2,3) unfolding workflow_file_def by blast
  with scan show ?thesis by simp
qed

lemma test_config_bar:
  "Workflows test_config ''bar.yaml'' = Some \<lparr>PathsRegex = ''(x|y)/'', PathsIgnoreRegex = []\<rparr>"
  by (simp add: test_config_def)

lemma compile_test_paths: "Compile go_regexp ''^(x|y)/'' \<noteq> None"
  by code_simp

theorem ShouldRunWorkflow_own_file_witness:
  "ShouldRunWorkflow Background go_regexp test_config ''bar.yaml''
     [changed ''test/testdata.json'', changed ''Documentation/operations-guide.rst'',
      changed ''.github/workflows/bar.yaml''] = Returns True"
  using ShouldRunWorkflow_own_file [OF test_config_bar,
          of "changed ''.github/workflows/bar.yaml''"
             "[changed ''test/testdata.json'', changed ''Documentation/operations-guide.rst'',
               changed ''.github/workflows/bar.yaml'']" go_regexp Background]
        compile_test_paths
  by (simp add: changed_def)

text \<open>An expression that does not compile makes the function return false before it
  looks at any file. The context is that of a handler.\<close>

theorem ShouldRunWorkflow_own_file_counterexample:
  "Workflows unclosed_group_config ''bar.yaml''
     = Some \<lparr>PathsRegex = ''(x|y/'', PathsIgnoreRegex = []\<rparr>
   \<and> parse_expr ''^(x|y/'' = SyntaxError ErrMissingParen
   \<and> ShouldRunWorkflow handler_ctx go_regexp unclosed_group_config ''bar.yaml''
          [changed ''.github/workflows/bar.yaml''] = Returns False"
  by code_simp


subsection \<open>Merge groups\<close>

lemma Handle_checks_trace:
  "\<exists>trace'. Handle_checks env repositoryOwner repositoryName headSHA (map Some checks) trace
       = (False, trace @ trace')
     \<and> map CallOptions trace'
         = map (\<lambda>c. \<lparr>CheckName = Context c, CheckHeadSHA = headSHA,
                       CheckStatus = Some ''completed'', CheckConclusion = Some ''success''\<rparr>)
             (filter (\<lambda>c. GetAppID (Some c) = 0) checks)
     \<and> list_all (\<lambda>call. CallOwner call = repositoryOwner \<and> CallRepo call = repositoryName) trace'"
proof (induction checks arbitrary: trace)
  case Nil
  then show ?case by simp
next
  case (Cons c cs)
  show ?case
  proof (cases "GetAppID (Some c) = 0")
    case False
    with Cons.IH [of trace] show ?thesis by simp
  next
    case True
    let ?opts = "\<lparr>CheckName = Context c, CheckHeadSHA = headSHA,
                   CheckStatus = Some ''completed'', CheckConclusion = Some ''success''\<rparr>"
    let ?call = "\<lparr>CallOwner = repositoryOwner, CallRepo = repositoryName, CallOptions = ?opts,
                   CallError = CreateCheckRun env trace repositoryOwner repositoryName ?opts\<rparr>"
    from Cons.IH [of "trace @ [?call]"] obtain trace' where
      t: "Handle_checks env repositoryOwner repositoryName headSHA (map Some cs) (trace @ [?call])
            = (False, (trace @ [?call]) @ trace')"
      and o: "map CallOptions trace'
         = map (\<lambda>c. \<lparr>CheckName = Context c, CheckHeadSHA = headSHA,
                       CheckStatus = Some ''completed'', CheckConclusion = Some ''success''\<rparr>)
             (filter (\<lambda>c. GetAppID (Some c) = 0) cs)"
      and l: "list_all (\<lambda>call. CallOwner call = repositoryOwner \<and> CallRepo call = repositoryName) trace'"
      by blast
    have "Handle_checks env repositoryOwner repositoryName headSHA (map Some (c # cs)) trace
            = (False, trace @ (?call # trace'))"
      using True t by (simp add: Let_def)
    moreover have "map CallOptions (?call # trace')
         = map (\<lambda>c. \<lparr>CheckName = Context c, CheckHeadSHA = headSHA,
                       CheckStatus = Some ''completed'', CheckConclusion = Some ''success''\<rparr>)
             (filter (\<lambda>c. GetAppID (Some c) = 0) (c # cs))"
      using True o by simp
    moreover have "list_all (\<lambda>call. CallOwner call = repositoryOwner \<and> CallRepo call = repositoryName)
                     (?call # trace')"
      using l by simp
    ultimately show ?thesis by blast
  qed
qed

text \<open>Claim C8. On a \<^verbatim>\<open>merge_group\<close> event with action \<^verbatim>\<open>checks_requested\<close>, once the
  client and the branch protection are there, the handler returns no error, and the
  check runs it asks the API to create are, in the order of the required checks, those
  of the checks whose app identifier reads as 0, each completed with conclusion success
  at the head SHA of the merge group; a check with another app identifier causes no
  call. This holds whatever \<^verbatim>\<open>CreateCheckRun\<close> answers, so an error for one check does
  not keep the later checks from being processed.\<close>

theorem MergeGroupHandler_Handle_checks_requested:
  assumes "Unmarshal env payload = Inr event"
    and "GetAction event = ''checks_requested''"
    and "NewInstallationClient env (GetInstallationIDFromEvent event) = None"
    and "GetBranchProtection env (GetLogin (GetOwner (EventRepo event))) (GetName (EventRepo event))
           (GetBaseRef (EventMergeGroup event)) = Inr branchPro"
    and "GetChecks (GetRequiredStatusChecks branchPro) = map Some checks"
  shows "fst (MergeGroupHandler_Handle env payload) = Return None
    \<and> map CallOptions (snd (MergeGroupHandler_Handle env payload))
        = map (\<lambda>c. \<lparr>CheckName = Context c, CheckHeadSHA = GetHeadSHA (EventMergeGroup event),
                      CheckStatus = Some ''completed'', CheckConclusion = Some ''success''\<rparr>)
            (filter (\<lambda>c. GetAppID (Some c) = 0) checks)
    \<and> list_all (\<lambda>call. CallOwner call = GetLogin (GetOwner (EventRepo event))
                       \<and> CallRepo call = GetName (EventRepo event))
        (snd (MergeGroupHandler_Handle env payload))"
proof -
  from Handle_checks_trace [of env "GetLogin (GetOwner (EventRepo event))" "GetName (EventRepo event)"
         "GetHeadSHA (EventMergeGroup event)" checks "[]"]
  obtain trace' where
    t: "Handle_checks env (GetLogin (GetOwner (EventRepo event))) (GetName (EventRepo event))
          (GetHeadSHA (EventMergeGroup event)) (map Some checks) [] = (False, trace')"
    and o: "map CallOptions trace'
         = map (\<lambda>c. \<lparr>CheckName = Context c, CheckHeadSHA = GetHeadSHA (EventMergeGroup event),
                       CheckStatus = Some ''completed'', CheckConclusion = Some ''success''\<rparr>)
             (filter (\<lambda>c. GetAppID (Some c) = 0) checks)"
    and l: "list_all (\<lambda>call. CallOwner call = GetLogin (GetOwner (EventRepo event))
                       \<and> CallRepo call = GetName (EventRepo event)) trace'"
    by auto
  have "MergeGroupHandler_Handle env payload = (Return None, trace')"
    using assms t by (simp add: MergeGroupHandler_Handle_def Let_def)
  with o l show ?thesis by simp
qed

theorem MergeGroupHandler_Handle_checks_requested_witness:
  "fst (MergeGroupHandler_Handle example_env ()) = Return None
   \<and> map CallOptions (snd (MergeGroupHandler_Handle example_env ()))
       = [check_run ''lint'', check_run ''docs'']
   \<and> map CallError (snd (MergeGroupHandler_Handle example_env ()))
       = [Some ''502 Bad Gateway'', None]"
proof -
  let ?pro = "Some \<lparr>ProtRequiredStatusChecks = Some \<lparr>Checks = Some (map Some example_checks)\<rparr>\<rparr>"
  have h1: "Unmarshal example_env () = Inr example_event"
    by (simp add: example_env_def)
  have h2: "GetAction example_event = ''checks_requested''"
    by (simp add: GetAction_def example_event_def str_or_empty_def)
  have h3: "NewInstallationClient example_env (GetInstallationIDFromEvent example_event) = None"
    by (simp add: example_env_def)
  have h4: "GetBranchProtection example_env (GetLogin (GetOwner (EventRepo example_event)))
              (GetName (EventRepo example_event)) (GetBaseRef (EventMergeGroup example_event))
            = Inr ?pro"
    by (simp add: example_env_def)
  have h5: "GetChecks (GetRequiredStatusChecks ?pro) = map Some example_checks"
    by (simp add: GetChecks_def GetRequiredStatusChecks_def)
  have sha: "GetHeadSHA (EventMergeGroup example_event) = ''0123abc''"
    by (simp add: GetHeadSHA_def example_event_def str_or_empty_def)
  have errors: "map CallError (snd (MergeGroupHandler_Handle example_env ()))
                  = [Some ''502 Bad Gateway'', None]"
    by code_simp
  from MergeGroupHandler_Handle_checks_requested [OF h1 h2 h3 h4 h5] errors
  show ?thesis
    by (simp add: sha example_checks_def GetAppID_def check_run_def)
qed

subsection \<open>Trigger phrases\<close>

lemma CheckForTrigger_range_returns:
  "FromContext ctx = Some logger \<Longrightarrow>
   \<exists>result. CheckForTrigger_range ctx pkg triggers comment = Returns result"
  by (induction triggers) (auto split: option.splits)

lemma CheckForTrigger_range_filter:
  "FromContext ctx = Some logger \<Longrightarrow>
   CheckForTrigger_range ctx pkg triggers comment =
   CheckForTrigger_range ctx pkg
     (filter (\<lambda>(regex, trigger). Compile pkg (''^'' @ regex @ ''$'') \<noteq> None) triggers) comment"
  by (induction triggers) (auto split: option.splits)

lemma CheckForTrigger_range_pass:
  "FromContext ctx = Some logger \<Longrightarrow>
   \<forall>(regex, trigger) \<in> set before. \<forall>re.
      Compile pkg (''^'' @ regex @ ''$'') = Some re \<longrightarrow> FindStringSubmatch pkg re comment = None \<Longrightarrow>
   CheckForTrigger_range ctx pkg (before @ rest) comment =
   CheckForTrigger_range ctx pkg rest comment"
  by (induction before) (auto split: option.splits)

text \<open>Claim C9, as amended. When the context carries a logger, \<^verbatim>\<open>CheckForTrigger\<close>
  returns, and an entry of the trigger table whose anchored expression (\<^verbatim>\<open>^\<close>, pattern,
  \<^verbatim>\<open>$\<close>) does not compile has no part in the result: the result is that of the table
  without such entries, removing one of them, wherever it stands, leaves the result as
  it is, and an entry that compiles and matches is returned when the entries before it
  either do not compile or do not match.\<close>

theorem CheckForTrigger_skips_invalid:
  assumes "FromContext ctx = Some logger"
  shows "(\<exists>result. CheckForTrigger ctx pkg config comment = Returns result)
   \<and> CheckForTrigger ctx pkg config comment =
       CheckForTrigger ctx pkg
         (config\<lparr>Triggers :=
            filter (\<lambda>(regex, trigger). Compile pkg (''^'' @ regex @ ''$'') \<noteq> None)
              (Triggers config)\<rparr>)
         comment
   \<and> (Triggers config = before @ (invalid, skipped) # after
        \<and> Compile pkg (''^'' @ invalid @ ''$'') = None \<longrightarrow>
      CheckForTrigger ctx pkg config comment =
        CheckForTrigger ctx pkg (config\<lparr>Triggers := before @ after\<rparr>) comment)
   \<and> (Triggers config = earlier @ (regex, trigger) # later
        \<and> (\<forall>(regex', trigger') \<in> set earlier. \<forall>re'.
              Compile pkg (''^'' @ regex' @ ''$'') = Some re' \<longrightarrow>
              FindStringSubmatch pkg re' comment = None)
        \<and> Compile pkg (''^'' @ regex @ ''$'') = Some re
        \<and> FindStringSubmatch pkg re comment = Some submatch \<longrightarrow>
      CheckForTrigger ctx pkg config comment
        = Returns (Some (submatch, TriggerWorkflows trigger)))"
proof -
  have returns: "\<exists>result. CheckForTrigger ctx pkg config comment = Returns result"
    unfolding CheckForTrigger_def by (rule CheckForTrigger_range_returns [OF assms])
  have filtered: "CheckForTrigger ctx pkg config comment =
       CheckForTrigger ctx pkg
         (config\<lparr>Triggers :=
            filter (\<lambda>(regex, trigger). Compile pkg (''^'' @ regex @ ''$'') \<noteq> None)
              (Triggers config)\<rparr>)
         comment"
    unfolding CheckForTrigger_def
    using CheckForTrigger_range_filter [OF assms, of pkg "Triggers config" comment]
    by simp
  have removed: "CheckForTrigger_range ctx pkg (before @ (invalid, skipped) # after) comment =
        CheckForTrigger_range ctx pkg (before @ after) comment"
    if "Compile pkg (''^'' @ invalid @ ''$'') = None"
    using that
      CheckForTrigger_range_filter [OF assms, of pkg "before @ (invalid, skipped) # after" comment]
      CheckForTrigger_range_filter [OF assms, of pkg "before @ after" comment]
    by simp
  have first: "CheckForTrigger_range ctx pkg (earlier @ (regex, trigger) # later) comment
                 = Returns (Some (submatch, TriggerWorkflows trigger))"
    if "\<forall>(regex', trigger') \<in> set earlier. \<forall>re'.
              Compile pkg (''^'' @ regex' @ ''$'') = Some re' \<longrightarrow>
              FindStringSubmatch pkg re' comment = None"
      and "Compile pkg (''^'' @ regex @ ''$'') = Some re"
      and "FindStringSubmatch pkg re comment = Some submatch"
    using CheckForTrigger_range_pass [OF assms that(1), of "(regex, trigger) # later"] that(2,3)
    by simp
  show ?thesis
    using returns filtered removed first unfolding CheckForTrigger_def by simp
qed

theorem CheckForTrigger_skips_invalid_witness:
  "parse_expr ''^/broken($'' = SyntaxError ErrMissingParen
   \<and> CheckForTrigger handler_ctx go_regexp broken_trigger_config ''/test''
       = CheckForTrigger handler_ctx go_regexp
           (broken_trigger_config
              \<lparr>Triggers := [(''/test'', \<lparr>TriggerWorkflows = [''test.yaml'']\<rparr>)]\<rparr>) ''/test''
   \<and> CheckForTrigger handler_ctx go_regexp broken_trigger_config ''/test''
       = Returns (Some ([''/test''], [''test.yaml'']))"
proof -
  have l: "FromContext handler_ctx = Some Logger"
    by (simp add: handler_ctx_def WithLogger_def FromContext_def)
  have e: "parse_expr ''^/broken($'' = SyntaxError ErrMissingParen"
    by code_simp
  then have c: "Compile go_regexp (''^'' @ ''/broken('' @ ''$'') = None"
    by (simp add: go_regexp_def go_Compile_def)
  have t: "Triggers broken_trigger_config
             = [] @ (''/broken('', \<lparr>TriggerWorkflows = [''broken.yaml'']\<rparr>)
                  # [(''/test'', \<lparr>TriggerWorkflows = [''test.yaml'']\<rparr>)]"
    by (simp add: broken_trigger_config_def)
  have t': "Triggers broken_trigger_config
             = [(''/broken('', \<lparr>TriggerWorkflows = [''broken.yaml'']\<rparr>)]
                 @ (''/test'', \<lparr>TriggerWorkflows = [''test.yaml'']\<rparr>) # []"
    by (simp add: broken_trigger_config_def)
  have earlier: "\<forall>(regex', trigger') \<in> set [(''/broken('', \<lparr>TriggerWorkflows = [''broken.yaml'']\<rparr>)].
                   \<forall>re'. Compile go_regexp (''^'' @ regex' @ ''$'') = Some re' \<longrightarrow>
                         FindStringSubmatch go_regexp re' ''/test'' = None"
    using c by simp
  have c': "Compile go_regexp (''^'' @ ''/test'' @ ''$'') = Some test_trigger_re"
    by code_simp
  have m: "FindStringSubmatch go_regexp test_trigger_re ''/test'' = Some [''/test'']"
    by code_simp
  note inst = CheckForTrigger_skips_invalid [OF l, of go_regexp broken_trigger_config "''/test''"
            "[]" "''/broken(''" "\<lparr>TriggerWorkflows = [''broken.yaml'']\<rparr>"
            "[(''/test'', \<lparr>TriggerWorkflows = [''test.yaml'']\<rparr>)]"
            "[(''/broken('', \<lparr>TriggerWorkflows = [''broken.yaml'']\<rparr>)]"
            "''/test''" "\<lparr>TriggerWorkflows = [''test.yaml'']\<rparr>" "[]"
            test_trigger_re "[''/test'']"]
  have removed: "CheckForTrigger handler_ctx go_regexp broken_trigger_config ''/test''
          = CheckForTrigger handler_ctx go_regexp
              (broken_trigger_config
                 \<lparr>Triggers := [] @ [(''/test'', \<lparr>TriggerWorkflows = [''test.yaml'']\<rparr>)]\<rparr>)
              ''/test''"
    using inst c t by blast
  have first: "CheckForTrigger handler_ctx go_regexp broken_trigger_config ''/test''
          = Returns (Some ([''/test''], TriggerWorkflows \<lparr>TriggerWorkflows = [''test.yaml'']\<rparr>))"
    using inst t' earlier c' m by blast
  from e removed first show ?thesis by simp
qed

text \<open>The claim as it was stated fails in two ways. A pattern that ends in a backslash
  does not compile, but the anchored expression does, because the backslash now escapes
  the \<^verbatim>\<open>$\<close>: the entry is not skipped, and its workflows are returned where the table
  without it returns those of the next entry. And with a context that carries no
  logger, as \<^verbatim>\<open>context.Background()\<close>, an expression that does not compile makes the
  call panic.\<close>

theorem CheckForTrigger_skips_invalid_counterexample:
  "parse_expr (''/test'' @ [CHR 0x5C]) = SyntaxError ErrTrailingBackslash
   \<and> Compile go_regexp (''/test'' @ [CHR 0x5C]) = None
   \<and> CheckForTrigger handler_ctx go_regexp trailing_backslash_config ''/test$''
       = Returns (Some ([''/test$''], [''a.yaml'']))
   \<and> CheckForTrigger handler_ctx go_regexp without_backslash_config ''/test$''
       = Returns (Some ([''/test$''], [''b.yaml'']))
   \<and> parse_expr ''^/broken($'' = SyntaxError ErrMissingParen
   \<and> CheckForTrigger Background go_regexp broken_trigger_config ''/test'' = Panics"
  by code_simp

text \<open>A match comes from an entry whose anchored expression compiles and finds a
  submatch in the comment; there is no match exactly when the call returns and no
  entry does. The first two cases of \<^verbatim>\<open>Test_CheckForTrigger\<close> evaluate as the test
  expects.\<close>

lemma CheckForTrigger_range_sound:
  "CheckForTrigger_range ctx pkg triggers comment = Returns (Some (submatch, workflows)) \<Longrightarrow>
   \<exists>(regex, trigger) \<in> set triggers. \<exists>re.
      Compile pkg (''^'' @ regex @ ''$'') = Some re
      \<and> FindStringSubmatch pkg re comment = Some submatch
      \<and> workflows = TriggerWorkflows trigger"
  by (induction triggers) (auto split: option.splits)

lemma CheckForTrigger_range_none:
  "FromContext ctx = Some logger \<Longrightarrow>
   CheckForTrigger_range ctx pkg triggers comment = Returns None \<longleftrightarrow>
   (\<forall>(regex, trigger) \<in> set triggers. \<forall>re.
      Compile pkg (''^'' @ regex @ ''$'') = Some re \<longrightarrow> FindStringSubmatch pkg re comment = None)"
  by (induction triggers) (auto split: option.splits)

lemma CheckForTrigger_cute:
  "CheckForTrigger handler_ctx go_regexp cute_config ''/cute''
     = Returns (Some ([''/cute''], [''cte.yaml'']))"
  "CheckForTrigger handler_ctx go_regexp cute_config ''/cute cilium/cute-nationwide''
     = Returns None"
  by code_simp+

text \<open>Claim C3. A match is to be returned only for a pattern that matches the entire
  comment. The code builds the anchored expression by concatenation, \<^verbatim>\<open>^\<close>, pattern,
  \<^verbatim>\<open>$\<close>, and alternation binds weaker than concatenation: for the pattern
  \<^verbatim>\<open>/foo|/bar\<close> the expression is \<^verbatim>\<open>^/foo|/bar$\<close>, which asks for \<^verbatim>\<open>/foo\<close> at the
  beginning or \<^verbatim>\<open>/bar\<close> at the end. The comment \<^verbatim>\<open>/foo and more text\<close> gets a match,
  whose group 0 is \<^verbatim>\<open>/foo\<close>; with the alternation in a group it gets none.\<close>

theorem CheckForTrigger_alternation_prefix:
  "CheckForTrigger handler_ctx go_regexp alternation_config ''/foo and more text''
     = Returns (Some ([''/foo''], [''foo.yaml'']))
   \<and> CheckForTrigger handler_ctx go_regexp grouped_alternation_config ''/foo and more text''
       = Returns None"
  by code_simp

end
